theory Spec2Isabelle
  imports Complex_Main
begin

section \<open>The JavaScript values the lookup modules handle\<close>

text \<open>
  A JavaScript string is modelled as a \<^typ>\<open>string\<close>: the list of its code units, for code
  units below 256. Numbers that the code obtains from \<open>parseInt\<close> or from a \<open>Date\<close> are
  integers (\<^typ>\<open>int\<close>), with \<open>None\<close> for \<open>NaN\<close>; the numbers of a JSON text are rationals.
  Console output is not part of the model.

  The parts of the platform that are not modelled in full are the fields of the record
  \<open>host\<close>: every theorem below holds for every host.
\<close>

datatype json =
    JNull
  | JBool bool
  | JNum rat
  | JStr string
  | JArr "json list"
  | JObj "(string \<times> json) list"

datatype fetch_result =
    NetworkError
  | Response (status: nat) (body: "string option")

record host =
  fetch :: "string \<Rightarrow> fetch_result"
  json_parser :: "string \<Rightarrow> json option"
  encodeURIComponent :: "string \<Rightarrow> string"
  toUpperCase :: "string \<Rightarrow> string"
  Number_toString_host :: "rat \<Rightarrow> string"
  Date_parse_host :: "string \<Rightarrow> int option"

subsection \<open>String primitives\<close>

text \<open>
  \<open>isWhiteSpace\<close>: the code units that \<open>String.prototype.trim\<close> and \<open>parseInt\<close> skip
  (WhiteSpace and LineTerminator of ECMAScript), among the code units below 256:
  TAB, LF, VT, FF, CR, SPACE and NBSP.
\<close>

definition isWhiteSpace :: "char \<Rightarrow> bool" where
  "isWhiteSpace c \<longleftrightarrow>
     c = CHR 0x09 \<or> c = CHR 0x0A \<or> c = CHR 0x0B \<or> c = CHR 0x0C \<or> c = CHR 0x0D
     \<or> c = CHR 0x20 \<or> c = CHR 0xA0"

definition trimEnd :: "string \<Rightarrow> string" where
  "trimEnd s = rev (dropWhile isWhiteSpace (rev s))"

definition trim :: "string \<Rightarrow> string" where
  "trim s = trimEnd (dropWhile isWhiteSpace s)"

text \<open>\<open>isDigit\<close> is the regular expression class \<open>\d\<close>: the ten ASCII digits.\<close>

definition isDigit :: "char \<Rightarrow> bool" where
  "isDigit c \<longleftrightarrow>
     c = CHR ''0'' \<or> c = CHR ''1'' \<or> c = CHR ''2'' \<or> c = CHR ''3'' \<or> c = CHR ''4''
     \<or> c = CHR ''5'' \<or> c = CHR ''6'' \<or> c = CHR ''7'' \<or> c = CHR ''8'' \<or> c = CHR ''9''"

definition digitVal :: "char \<Rightarrow> nat" where
  "digitVal c = of_char c - 48"

definition digitChar :: "nat \<Rightarrow> char" where
  "digitChar n = ''0123456789'' ! (n mod 10)"

text \<open>\<open>split sep s\<close> is \<open>s.split(sep)\<close> for a separator of one code unit.\<close>

fun split :: "char \<Rightarrow> string \<Rightarrow> string list" where
  "split sep [] = [[]]"
| "split sep (c # cs) =
     (if c = sep then [] # split sep cs
      else (case split sep cs of
              [] \<Rightarrow> [[c]]
            | p # ps \<Rightarrow> (c # p) # ps))"

text \<open>\<open>padStart n c s\<close> is \<open>s.padStart(n, c)\<close> for a pad string of one code unit.\<close>

definition padStart :: "nat \<Rightarrow> char \<Rightarrow> string \<Rightarrow> string" where
  "padStart n c s = replicate (n - length s) c @ s"

text \<open>\<open>includes_str s sub\<close> is \<open>s.includes(sub)\<close>.\<close>

fun startsWith :: "string \<Rightarrow> string \<Rightarrow> bool" where
  "startsWith s [] = True"
| "startsWith [] (p # ps) = False"
| "startsWith (c # cs) (p # ps) = (c = p \<and> startsWith cs ps)"

fun includes_str :: "string \<Rightarrow> string \<Rightarrow> bool" where
  "includes_str [] sub = (sub = [])"
| "includes_str (c # cs) sub = (startsWith (c # cs) sub \<or> includes_str cs sub)"

subsection \<open>Numbers\<close>

text \<open>
  \<open>parseInt s\<close> is \<open>parseInt(s, 10)\<close>: leading white space is skipped, one sign is read,
  then the longest run of digits; with no digit the result is \<open>NaN\<close> (\<open>None\<close>). The
  value is the mathematical integer of the digits; JavaScript rounds it to a double,
  which changes nothing below \<open>2^53\<close> and keeps every comparison with a small constant.
\<close>

definition digitsValue :: "string \<Rightarrow> int" where
  "digitsValue ds = foldl (\<lambda>a c. 10 * a + int (digitVal c)) 0 ds"

definition parseInt :: "string \<Rightarrow> int option" where
  "parseInt s =
     (let t = dropWhile isWhiteSpace s;
          neg = (case t of [] \<Rightarrow> False | c # _ \<Rightarrow> c = CHR ''-'');
          u = (case t of [] \<Rightarrow> [] | c # r \<Rightarrow> if c = CHR ''-'' \<or> c = CHR ''+'' then r else t);
          ds = takeWhile isDigit u
      in if ds = [] then None
         else Some (if neg then - digitsValue ds else digitsValue ds))"

text \<open>
  \<open>Number_toString h n\<close> is \<open>String(n)\<close> for an integer-valued number: the decimal
  digits, with a minus sign, for every magnitude below \<open>2^53\<close>, where each integer is a
  double of its own. Above that the digits are those of the nearest double, in exponent
  notation from \<open>10^21\<close> on: the host's \<open>Number_toString_host\<close>.
\<close>

fun decimal :: "nat \<Rightarrow> string" where
  "decimal n = (if n < 10 then [digitChar n] else decimal (n div 10) @ [digitChar n])"

definition Number_toString :: "host \<Rightarrow> int \<Rightarrow> string" where
  "Number_toString h n =
     (if \<bar>n\<bar> < 2 ^ 53
      then (if n < 0 then CHR ''-'' # decimal (nat (- n)) else decimal (nat n))
      else Number_toString_host h (of_int n))"

section \<open>The Date Normalizer\<close>

subsection \<open>The two regular expressions\<close>

text \<open>
  \<open>re_date_prefix s\<close> matches \<open>\d{4}-\d{2}-\d{2}\<close> at the start of \<open>s\<close> and returns what
  follows the ten code units. \<open>test_canonical\<close> is \<open>/^\d{4}-\d{2}-\d{2}$/.test\<close> and
  \<open>test_datetime\<close> is \<open>/^\d{4}-\d{2}-\d{2}T/.test\<close>.
\<close>

fun re_date_prefix :: "string \<Rightarrow> string option" where
  "re_date_prefix (y1 # y2 # y3 # y4 # a # m1 # m2 # b # d1 # d2 # rest) =
     (if isDigit y1 \<and> isDigit y2 \<and> isDigit y3 \<and> isDigit y4 \<and> a = CHR ''-''
         \<and> isDigit m1 \<and> isDigit m2 \<and> b = CHR ''-'' \<and> isDigit d1 \<and> isDigit d2
      then Some rest else None)"
| "re_date_prefix _ = None"

definition test_canonical :: "string \<Rightarrow> bool" where
  "test_canonical s \<longleftrightarrow> re_date_prefix s = Some []"

definition test_datetime :: "string \<Rightarrow> bool" where
  "test_datetime s \<longleftrightarrow>
     (case re_date_prefix s of
        None \<Rightarrow> False
      | Some [] \<Rightarrow> False
      | Some (c # _) \<Rightarrow> c = CHR ''T'')"

subsection \<open>The slash form, shared by the variants of part 001 and of firebase.ts\<close>

text \<open>
  The branch \<open>parts.length === 3\<close>: the three parts go through \<open>parseInt\<close>, a \<open>NaN\<close>
  fails every comparison, and the year is printed as it is while month and day are
  padded to two digits.
\<close>

definition slash_form :: "host \<Rightarrow> string \<Rightarrow> string option" where
  "slash_form h trimmed =
     (case split (CHR ''/'') trimmed of
        [day, month, year] \<Rightarrow>
          (case (parseInt day, parseInt month, parseInt year) of
             (Some dayNum, Some monthNum, Some yearNum) \<Rightarrow>
               if dayNum \<ge> 1 \<and> dayNum \<le> 31 \<and> monthNum \<ge> 1 \<and> monthNum \<le> 12 \<and> yearNum \<ge> 1900
               then Some (Number_toString h yearNum @ ''-''
                          @ padStart 2 (CHR ''0'') (Number_toString h monthNum) @ ''-''
                          @ padStart 2 (CHR ''0'') (Number_toString h dayNum))
               else None
           | _ \<Rightarrow> None)
      | _ \<Rightarrow> None)"

subsection \<open>The truncation variant (part 001, and the last module of firebase.ts)\<close>

definition parseFrenchDate_trunc :: "host \<Rightarrow> string \<Rightarrow> string option" where
  "parseFrenchDate_trunc h dateStr =
     (if dateStr = [] then None
      else let trimmed = trim dateStr in
        if trimmed = [] then None
        else if test_canonical trimmed then Some trimmed
        else if test_datetime trimmed then
          (case split (CHR ''T'') trimmed of [] \<Rightarrow> None | p # _ \<Rightarrow> Some p)
        else slash_form h trimmed)"

subsection \<open>Dates\<close>

text \<open>
  A \<open>Date\<close> is its time value: the milliseconds since the epoch, or \<open>NaN\<close> (\<open>None\<close>).
  \<open>TimeClip\<close> bounds a time value as the constructor does. The calendar of a day number
  is computed with whole-number division, which rounds down in HOL as \<open>floor\<close> does.
\<close>

definition msPerDay :: int where
  "msPerDay = 86400000"

definition TimeClip :: "int \<Rightarrow> int option" where
  "TimeClip t = (if \<bar>t\<bar> \<le> 8640000000000000 then Some t else None)"

definition isLeapYear :: "int \<Rightarrow> bool" where
  "isLeapYear y = (if y mod 400 = 0 then True else if y mod 100 = 0 then False else y mod 4 = 0)"

definition DaysInMonth :: "int \<Rightarrow> int \<Rightarrow> int" where
  "DaysInMonth y m =
     (if m = 2 then (if isLeapYear y then 29 else 28)
      else if m = 4 \<or> m = 6 \<or> m = 9 \<or> m = 11 then 30 else 31)"

text \<open>\<open>days_from_civil y m d\<close>: the day number of the date, for \<open>m\<close> from 1 to 12.\<close>

definition days_from_civil :: "int \<Rightarrow> int \<Rightarrow> int \<Rightarrow> int" where
  "days_from_civil y m d =
     (let y' = (if m \<le> 2 then y - 1 else y);
          era = y' div 400;
          yoe = y' - era * 400;
          mp = (if m > 2 then m - 3 else m + 9);
          doy = (153 * mp + 2) div 5 + d - 1;
          doe = yoe * 365 + yoe div 4 - yoe div 100 + doy
      in era * 146097 + doe - 719468)"

text \<open>\<open>civil_from_days z\<close>: year, month (1 to 12) and day of the month of day number \<open>z\<close>.\<close>

definition civil_from_days :: "int \<Rightarrow> int \<times> int \<times> int" where
  "civil_from_days z =
     (let z' = z + 719468;
          era = z' div 146097;
          doe = z' - era * 146097;
          yoe = (doe - doe div 1460 + doe div 36524 - doe div 146096) div 365;
          doy = doe - (365 * yoe + yoe div 4 - yoe div 100);
          mp = (5 * doy + 2) div 153;
          d = doy - (153 * mp + 2) div 5 + 1;
          m = (if mp < 10 then mp + 3 else mp - 9);
          y = yoe + era * 400
      in (if m \<le> 2 then y + 1 else y, m, d))"

definition getUTCFullYear :: "int \<Rightarrow> int" where
  "getUTCFullYear t = fst (civil_from_days (t div msPerDay))"

definition getUTCMonth :: "int \<Rightarrow> int" where
  "getUTCMonth t = fst (snd (civil_from_days (t div msPerDay))) - 1"

definition getUTCDate :: "int \<Rightarrow> int" where
  "getUTCDate t = snd (snd (civil_from_days (t div msPerDay)))"

text \<open>
  \<open>Date_parse_iso\<close> reads the two shapes of the Date Time String Format whose value does
  not depend on the host: the date alone, \<open>YYYY-MM-DD\<close>, which is midnight UTC, and the
  date with a time and a zone, \<open>YYYY-MM-DDTHH:mm\<close>, \<open>:ss\<close> and \<open>.sss\<close> optional, then \<open>Z\<close>
  or \<open>+HH:mm\<close> or \<open>-HH:mm\<close>, with every field in its range. Every other string (a time
  without a zone is local time, and what is not in the format is left to the
  implementation) is parsed by the host's \<open>Date_parse_host\<close>.
\<close>

definition num2 :: "char \<Rightarrow> char \<Rightarrow> nat option" where
  "num2 a b = (if isDigit a \<and> isDigit b then Some (10 * digitVal a + digitVal b) else None)"

fun iso_millis :: "string \<Rightarrow> nat \<times> string" where
  "iso_millis (c # f1 # f2 # f3 # rest) =
     (if c = CHR ''.'' \<and> isDigit f1 \<and> isDigit f2 \<and> isDigit f3
      then (100 * digitVal f1 + 10 * digitVal f2 + digitVal f3, rest)
      else (0, c # f1 # f2 # f3 # rest))"
| "iso_millis s = (0, s)"

fun iso_seconds :: "string \<Rightarrow> nat \<times> nat \<times> string" where
  "iso_seconds (c # s1 # s2 # rest) =
     (if c = CHR '':'' then
        (case num2 s1 s2 of
           Some ss \<Rightarrow> (ss, iso_millis rest)
         | None \<Rightarrow> (0, 0, c # s1 # s2 # rest))
      else (0, 0, c # s1 # s2 # rest))"
| "iso_seconds s = (0, 0, s)"

fun iso_time :: "string \<Rightarrow> (nat \<times> nat \<times> nat \<times> nat \<times> string) option" where
  "iso_time (h1 # h2 # c # m1 # m2 # rest) =
     (if c = CHR '':'' then
        (case (num2 h1 h2, num2 m1 m2) of
           (Some hh, Some mm) \<Rightarrow> Some (hh, mm, iso_seconds rest)
         | _ \<Rightarrow> None)
      else None)"
| "iso_time _ = None"

text \<open>\<open>iso_offset\<close>: the zone, in minutes east of UTC.\<close>

fun iso_offset :: "string \<Rightarrow> int option" where
  "iso_offset [z] = (if z = CHR ''Z'' then Some 0 else None)"
| "iso_offset [sg, h1, h2, c, m1, m2] =
     (if (sg = CHR ''+'' \<or> sg = CHR ''-'') \<and> c = CHR '':'' then
        (case (num2 h1 h2, num2 m1 m2) of
           (Some hh, Some mm) \<Rightarrow>
             if hh \<le> 23 \<and> mm \<le> 59
             then Some (if sg = CHR ''-'' then - int (60 * hh + mm) else int (60 * hh + mm))
             else None
         | _ \<Rightarrow> None)
      else None)"
| "iso_offset _ = None"

definition Date_parse_iso :: "string \<Rightarrow> int option" where
  "Date_parse_iso s =
     (case re_date_prefix s of
        None \<Rightarrow> None
      | Some rest \<Rightarrow>
          let y = digitsValue (take 4 s);
              m = digitsValue (take 2 (drop 5 s));
              d = digitsValue (take 2 (drop 8 s))
          in if 1 \<le> m \<and> m \<le> 12 \<and> 1 \<le> d \<and> d \<le> DaysInMonth y m then
               (case rest of
                  [] \<Rightarrow> Some (days_from_civil y m d * msPerDay)
                | t # tm \<Rightarrow>
                    if t = CHR ''T'' then
                      (case iso_time tm of
                         None \<Rightarrow> None
                       | Some (hh, mi, ss, ms, zone) \<Rightarrow>
                           (case iso_offset zone of
                              None \<Rightarrow> None
                            | Some off \<Rightarrow>
                                if hh \<le> 23 \<and> mi \<le> 59 \<and> ss \<le> 59
                                then Some (days_from_civil y m d * msPerDay
                                           + int hh * 3600000 + int mi * 60000
                                           + int ss * 1000 + int ms - off * 60000)
                                else None))
                    else None)
             else None)"

definition Date_parse :: "host \<Rightarrow> string \<Rightarrow> int option" where
  "Date_parse h s =
     (case Date_parse_iso s of
        Some t \<Rightarrow> Some t
      | None \<Rightarrow> Date_parse_host h s)"

text \<open>\<open>Date_new h s\<close> is \<open>new Date(s)\<close>, and \<open>Date_of\<close> is \<open>new Date(ms)\<close> for a number.\<close>

definition Date_new :: "host \<Rightarrow> string \<Rightarrow> int option" where
  "Date_new h s = Option.bind (Date_parse h s) TimeClip"

definition Date_of :: "int option \<Rightarrow> int option" where
  "Date_of ms = Option.bind ms TimeClip"

text \<open>\<open>String_number\<close> is \<open>String(x)\<close> for a number that may be \<open>NaN\<close>.\<close>

definition String_number :: "host \<Rightarrow> int option \<Rightarrow> string" where
  "String_number h x = (case x of None \<Rightarrow> ''NaN'' | Some n \<Rightarrow> Number_toString h n)"

text \<open>\<open>toISOString t\<close> for a valid time value: years outside 0 to 9999 have a sign and six digits.\<close>

definition toISOString :: "int \<Rightarrow> string" where
  "toISOString t =
     (let y = getUTCFullYear t;
          tod = t mod msPerDay;
          yearStr = (if 0 \<le> y \<and> y \<le> 9999 then padStart 4 (CHR ''0'') (decimal (nat y))
                     else (if y < 0 then CHR ''-'' else CHR ''+'')
                          # padStart 6 (CHR ''0'') (decimal (nat \<bar>y\<bar>)))
      in yearStr @ ''-'' @ padStart 2 (CHR ''0'') (decimal (nat (getUTCMonth t + 1)))
         @ ''-'' @ padStart 2 (CHR ''0'') (decimal (nat (getUTCDate t)))
         @ ''T'' @ padStart 2 (CHR ''0'') (decimal (nat (tod div 3600000)))
         @ '':'' @ padStart 2 (CHR ''0'') (decimal (nat ((tod div 60000) mod 60)))
         @ '':'' @ padStart 2 (CHR ''0'') (decimal (nat ((tod div 1000) mod 60)))
         @ ''.'' @ padStart 3 (CHR ''0'') (decimal (nat (tod mod 1000))) @ ''Z'')"

subsection \<open>The offset-shifted variant (the gender-aware module of firebase.ts)\<close>

text \<open>
  No operation of the date-time branch raises: an unreadable string gives an invalid
  \<open>Date\<close>, every number read from it is \<open>NaN\<close>, and the result is the text \<open>NaN-NaN-NaN\<close>.
  The \<open>catch\<close> of the source is never entered.
\<close>

definition parseFrenchDate_offset :: "host \<Rightarrow> string \<Rightarrow> string option" where
  "parseFrenchDate_offset h dateStr =
     (if dateStr = [] then None
      else let trimmed = trim dateStr in
        if trimmed = [] then None
        else if test_canonical trimmed then Some trimmed
        else if test_datetime trimmed then
          (let date = Date_new h trimmed;
               moroccoDayMs = map_option (\<lambda>t. t + 1 * 60 * 60 * 1000) date;
               moroccoDate = Date_of moroccoDayMs;
               year = map_option getUTCFullYear moroccoDate;
               month = padStart 2 (CHR ''0'')
                         (String_number h (map_option (\<lambda>t. getUTCMonth t + 1) moroccoDate));
               day = padStart 2 (CHR ''0'') (String_number h (map_option getUTCDate moroccoDate))
           in Some (String_number h year @ ''-'' @ month @ ''-'' @ day))
        else slash_form h trimmed)"

subsection \<open>The variant of part 000: day/month/year only\<close>

definition parseFrenchDate_slash :: "host \<Rightarrow> string \<Rightarrow> string option" where
  "parseFrenchDate_slash h dateStr =
     (if dateStr = [] then None
      else (case split (CHR ''/'') dateStr of
              [day, month, year] \<Rightarrow>
                (case Date_new h (year @ ''-'' @ month @ ''-'' @ day) of
                   None \<Rightarrow> None
                 | Some t \<Rightarrow>
                     (case split (CHR ''T'') (toISOString t) of [] \<Rightarrow> None | p # _ \<Rightarrow> Some p))
            | _ \<Rightarrow> None))"

section \<open>The Worker Lookup Client\<close>

subsection \<open>Conversions of JSON values\<close>

text \<open>
  The \<open>try\<close> block of the lookup raises in three places of the model: \<open>fetch\<close> or the
  reading of the body rejects, the body is no JSON text, or a value has no string form.
\<close>

datatype exn = TypeError | SyntaxError

text \<open>\<open>truthy v\<close>: the value counts as true in \<open>v || ''\<close>.\<close>

fun truthy :: "json \<Rightarrow> bool" where
  "truthy JNull = False"
| "truthy (JBool b) = b"
| "truthy (JNum q) = (q \<noteq> 0)"
| "truthy (JStr s) = (s \<noteq> [])"
| "truthy (JArr xs) = True"
| "truthy (JObj kvs) = True"

definition or_empty :: "json \<Rightarrow> json" where
  "or_empty v = (if truthy v then v else JStr [])"

text \<open>\<open>cell row i\<close> is \<open>row[i]\<close>: past the end of the array it is \<open>undefined\<close>, false as \<open>null\<close> is.\<close>

definition cell :: "json list \<Rightarrow> nat \<Rightarrow> json" where
  "cell row i = (if i < length row then row ! i else JNull)"

definition Number_show :: "host \<Rightarrow> rat \<Rightarrow> string" where
  "Number_show h q =
     (if q = of_int \<lfloor>q\<rfloor> then Number_toString h \<lfloor>q\<rfloor> else Number_toString_host h q)"

fun join_strings :: "(exn + string) list \<Rightarrow> exn + string" where
  "join_strings [] = Inr []"
| "join_strings [x] = x"
| "join_strings (x # y # ys) =
     (case x of
        Inl e \<Rightarrow> Inl e
      | Inr s \<Rightarrow> (case join_strings (y # ys) of Inl e \<Rightarrow> Inl e | Inr t \<Rightarrow> Inr (s @ '','' @ t)))"

text \<open>
  \<open>String_json h v\<close> is \<open>String(v)\<close>. An array is the join of its elements, \<open>null\<close> giving
  the empty string there. An object parsed from JSON is \<open>[object Object]\<close>, unless it has
  a key \<open>toString\<close> of its own: the key hides the method, no primitive value is found,
  and the conversion raises a \<open>TypeError\<close>.
\<close>

fun String_json :: "host \<Rightarrow> json \<Rightarrow> exn + string" where
  "String_json h JNull = Inr ''null''"
| "String_json h (JBool b) = Inr (if b then ''true'' else ''false'')"
| "String_json h (JNum q) = Inr (Number_show h q)"
| "String_json h (JStr s) = Inr s"
| "String_json h (JArr xs) =
     join_strings (map (\<lambda>x. if x = JNull then Inr [] else String_json h x) xs)"
| "String_json h (JObj kvs) =
     (if ''toString'' \<in> set (map fst kvs) then Inl TypeError else Inr ''[object Object]'')"

text \<open>
  \<open>JSON_parse h text\<close> is \<open>JSON.parse(text)\<close>, \<open>None\<close> when it raises a \<open>SyntaxError\<close>: the
  empty text is no JSON text, every other text goes to the host's parser.
\<close>

definition JSON_parse :: "host \<Rightarrow> string \<Rightarrow> json option" where
  "JSON_parse h text = (if text = [] then None else json_parser h text)"

text \<open>\<open>response_ok\<close> is \<open>response.ok\<close>: the status is from 200 to 299.\<close>

definition response_ok :: "nat \<Rightarrow> bool" where
  "response_ok st \<longleftrightarrow> 200 \<le> st \<and> st \<le> 299"

subsection \<open>The records\<close>

record GoogleSheetWorker =
  matricule :: string
  nom_complet :: string
  cin :: string
  date_entree :: string

record GoogleSheetWorker_sexe = GoogleSheetWorker +
  sexe :: string

definition GOOGLE_SCRIPT_URL :: string where
  "GOOGLE_SCRIPT_URL =
     ''https://script.google.com/macros/s/AKfycby9HLiqYrDEV8yKeNji3UIFsm3DeeKgiAgBVygCOP7Vl2YG8VFeDUXQepfgcgYau8tHSg/exec''"

definition GOOGLE_SCRIPT_URL_part000 :: string where
  "GOOGLE_SCRIPT_URL_part000 =
     ''https://script.google.com/macros/s/AKfycbwWdJe14BQLOrmwbwerjU6HyGQh-G13nKS1g1JHBk6VY8-4BdE7VzkthtR1fBvD5M3s-g/exec''"

subsection \<open>From the parsed body to the record\<close>

definition field :: "host \<Rightarrow> json list \<Rightarrow> nat \<Rightarrow> exn + string" where
  "field h row i = String_json h (or_empty (cell row i))"

text \<open>The record of a row of at least 14 fields, without the gender.\<close>

definition worker_of_row :: "host \<Rightarrow> json list \<Rightarrow> exn + GoogleSheetWorker option" where
  "worker_of_row h row =
     (case field h row 0 of Inl e \<Rightarrow> Inl e | Inr m \<Rightarrow>
      (case field h row 2 of Inl e \<Rightarrow> Inl e | Inr n \<Rightarrow>
       (case field h row 3 of Inl e \<Rightarrow> Inl e | Inr c \<Rightarrow>
        (case field h row 13 of Inl e \<Rightarrow> Inl e | Inr d \<Rightarrow>
           if m = [] \<and> c = [] then Inr None
           else Inr (Some \<lparr>matricule = m, nom_complet = n, cin = c, date_entree = d\<rparr>)))))"

definition convertGenderCode :: "host \<Rightarrow> json \<Rightarrow> exn + string" where
  "convertGenderCode h code =
     (case String_json h (or_empty code) of
        Inl e \<Rightarrow> Inl e
      | Inr s \<Rightarrow>
          let upperCode = trim (toUpperCase h s)
          in Inr (if upperCode = ''H'' then ''homme''
                  else if upperCode = ''M'' then ''femme''
                  else []))"

text \<open>The record of a row of at least 14 fields, with the gender of index 4.\<close>

definition worker_of_row_sexe :: "host \<Rightarrow> json list \<Rightarrow> exn + GoogleSheetWorker_sexe option" where
  "worker_of_row_sexe h row =
     (case field h row 0 of Inl e \<Rightarrow> Inl e | Inr m \<Rightarrow>
      (case field h row 2 of Inl e \<Rightarrow> Inl e | Inr n \<Rightarrow>
       (case field h row 3 of Inl e \<Rightarrow> Inl e | Inr c \<Rightarrow>
        (case convertGenderCode h (or_empty (cell row 4)) of Inl e \<Rightarrow> Inl e | Inr g \<Rightarrow>
         (case field h row 13 of Inl e \<Rightarrow> Inl e | Inr d \<Rightarrow>
            if m = [] \<and> c = [] then Inr None
            else Inr (Some \<lparr>matricule = m, nom_complet = n, cin = c, date_entree = d,
                             sexe = g\<rparr>))))))"

text \<open>
  \<open>first_row build data\<close>: the checks on the parsed body, from \<open>!data\<close> to
  \<open>row.length < 14\<close>, then the record of the first row.
\<close>

definition first_row :: "(json list \<Rightarrow> exn + 'w option) \<Rightarrow> json \<Rightarrow> exn + 'w option" where
  "first_row build data =
     (case data of
        JArr rows \<Rightarrow>
          (case rows of
             [] \<Rightarrow> Inr None
           | row # _ \<Rightarrow>
               (case row of
                  JArr cells \<Rightarrow> if length cells < 14 then Inr None else build cells
                | _ \<Rightarrow> Inr None))
      | _ \<Rightarrow> Inr None)"

subsection \<open>The lookups\<close>

text \<open>
  \<open>lookup_text\<close> is the \<open>try\<close> block of part 001 and of the gender-aware module once
  \<open>fetch\<close> has settled: the body is read as text and given to \<open>JSON.parse\<close>.
  \<open>lookup_json\<close> is that of part 000 and of the last module of firebase.ts, which call
  \<open>response.json()\<close>.
\<close>

definition lookup_text ::
    "host \<Rightarrow> (json list \<Rightarrow> exn + 'w option) \<Rightarrow> fetch_result \<Rightarrow> exn + 'w option" where
  "lookup_text h build response =
     (case response of
        NetworkError \<Rightarrow> Inl TypeError
      | Response st bd \<Rightarrow>
          if \<not> response_ok st then Inr None
          else (case bd of
                  None \<Rightarrow> Inl TypeError
                | Some text \<Rightarrow>
                    if text = [] then Inr None
                    else (case JSON_parse h text of
                            None \<Rightarrow> Inl SyntaxError
                          | Some data \<Rightarrow> first_row build data)))"

definition lookup_json ::
    "host \<Rightarrow> (json list \<Rightarrow> exn + 'w option) \<Rightarrow> fetch_result \<Rightarrow> exn + 'w option" where
  "lookup_json h build response =
     (case response of
        NetworkError \<Rightarrow> Inl TypeError
      | Response st bd \<Rightarrow>
          if \<not> response_ok st then Inr None
          else (case bd of
                  None \<Rightarrow> Inl TypeError
                | Some text \<Rightarrow>
                    (case JSON_parse h text of
                       None \<Rightarrow> Inl SyntaxError
                     | Some data \<Rightarrow> first_row build data)))"

text \<open>\<open>catch_null\<close> is the \<open>catch\<close> block: whatever was raised, the result is \<open>null\<close>.\<close>

definition catch_null :: "exn + 'w option \<Rightarrow> 'w option" where
  "catch_null r = (case r of Inl e \<Rightarrow> None | Inr w \<Rightarrow> w)"

definition search_url :: "string \<Rightarrow> host \<Rightarrow> string \<Rightarrow> string" where
  "search_url base h searchValue = base @ ''?search='' @ encodeURIComponent h (trim searchValue)"

text \<open>
  Each lookup returns its result and the list of the URLs it requested.
  \<open>searchWorkerInGoogleSheet\<close> is the function of part 001,
  \<open>searchWorkerInGoogleSheet_sexe\<close> the gender-aware one of firebase.ts, and
  \<open>searchWorkerInGoogleSheet_json\<close> the one of part 000 (with its own URL) and of the
  last module of firebase.ts.
\<close>

definition searchWorkerInGoogleSheet ::
    "host \<Rightarrow> string \<Rightarrow> GoogleSheetWorker option \<times> string list" where
  "searchWorkerInGoogleSheet h searchValue =
     (if searchValue = [] \<or> length (trim searchValue) = 0 then (None, [])
      else let url = search_url GOOGLE_SCRIPT_URL h searchValue
           in (catch_null (lookup_text h (worker_of_row h) (fetch h url)), [url]))"

definition searchWorkerInGoogleSheet_sexe ::
    "host \<Rightarrow> string \<Rightarrow> GoogleSheetWorker_sexe option \<times> string list" where
  "searchWorkerInGoogleSheet_sexe h searchValue =
     (if searchValue = [] \<or> length (trim searchValue) = 0 then (None, [])
      else let url = search_url GOOGLE_SCRIPT_URL h searchValue
           in (catch_null (lookup_text h (worker_of_row_sexe h) (fetch h url)), [url]))"

definition searchWorkerInGoogleSheet_json ::
    "string \<Rightarrow> host \<Rightarrow> string \<Rightarrow> GoogleSheetWorker option \<times> string list" where
  "searchWorkerInGoogleSheet_json base h searchValue =
     (if searchValue = [] \<or> length (trim searchValue) = 0 then (None, [])
      else let url = search_url base h searchValue
           in (catch_null (lookup_json h (worker_of_row h) (fetch h url)), [url]))"

section \<open>The Connectivity Manager: the probe\<close>

text \<open>
  What an attempt of the probe finds: the runtime's connectivity flag, whether a
  session exists, and how the race between the document read and the 30 second timer
  ends. The environment gives the attempt of each retry count. The probe returns its
  result and the list of what it did: a remote read, or a wait of so many milliseconds.
\<close>

record js_error =
  err_code :: "string option"
  err_message :: "string option"
  err_name :: "string option"

datatype race = DocRead | DocFailed js_error | Timeout

record attempt =
  onLine :: bool
  currentUser :: bool
  remote :: race

datatype event = RemoteRead | Sleep nat

record ConnectivityResult =
  success :: bool
  error :: "string option"

definition maxRetries :: nat where
  "maxRetries = 3"

text \<open>\<open>thrown r\<close>: what the \<open>await\<close> of the race raises, the timer's error on a timeout.\<close>

definition thrown :: "race \<Rightarrow> js_error option" where
  "thrown r =
     (case r of
        DocRead \<Rightarrow> None
      | DocFailed e \<Rightarrow> Some e
      | Timeout \<Rightarrow> Some \<lparr>err_code = None, err_message = Some ''Connection timeout'',
                          err_name = Some ''Error''\<rparr>)"

text \<open>\<open>message_includes e sub\<close> is \<open>error.message?.includes(sub)\<close>.\<close>

definition message_includes :: "js_error \<Rightarrow> string \<Rightarrow> bool" where
  "message_includes e sub = (case err_message e of None \<Rightarrow> False | Some m \<Rightarrow> includes_str m sub)"

definition errorMessage :: "js_error \<Rightarrow> string" where
  "errorMessage e =
     (case err_code e of
        Some (c # cs) \<Rightarrow> ''Firebase error: '' @ c # cs
      | _ \<Rightarrow>
          if message_includes e ''timeout''
            then ''Connection timeout - server may be slow, retrying...''
          else if message_includes e ''fetch'' \<or> message_includes e ''Failed to fetch''
            then ''Network connectivity issue - check your internet connection''
          else if err_name e = Some ''TypeError'' \<and> message_includes e ''fetch''
            then ''Network error - try refreshing the page''
          else ''Connection failed'')"

definition retry_wanted :: "js_error \<Rightarrow> bool" where
  "retry_wanted e \<longleftrightarrow>
     message_includes e ''timeout'' \<or> message_includes e ''fetch''
     \<or> message_includes e ''Failed to fetch''"

function testFirebaseConnection ::
    "(nat \<Rightarrow> attempt) \<Rightarrow> nat \<Rightarrow> ConnectivityResult \<times> event list" where
  "testFirebaseConnection env retryCount =
     (if \<not> onLine (env retryCount)
        then (\<lparr>success = False, error = Some ''Device is offline''\<rparr>, [])
      else if \<not> currentUser (env retryCount)
        then (\<lparr>success = True, error = None\<rparr>, [])
      else (case thrown (remote (env retryCount)) of
              None \<Rightarrow> (\<lparr>success = True, error = None\<rparr>, [RemoteRead])
            | Some e \<Rightarrow>
                if err_code e = Some ''permission-denied'' then
                  (\<lparr>success = False,
                    error = Some ''Firestore rules not deployed. Deploy rules via Firebase Console.''\<rparr>,
                   [RemoteRead])
                else if err_code e = Some ''failed-precondition'' then
                  (\<lparr>success = False,
                    error = Some ''Firestore database not created - please initialize database in Firebase Console''\<rparr>,
                   [RemoteRead])
                else if err_code e = Some ''unavailable'' then
                  (\<lparr>success = False,
                    error = Some ''Firebase backend temporarily unavailable. Client will operate in offline mode.''\<rparr>,
                   [RemoteRead])
                else if retry_wanted e \<and> retryCount < maxRetries then
                  (case testFirebaseConnection env (retryCount + 1) of
                     (r, evs) \<Rightarrow> (r, RemoteRead # Sleep (2000 * 2 ^ retryCount) # evs))
                else (\<lparr>success = False, error = Some (errorMessage e)\<rparr>, [RemoteRead])))"
  by pat_completeness auto
termination
  by (relation "measure (\<lambda>(env, retryCount). maxRetries - retryCount)") auto

section \<open>The words of the specification\<close>

subsection \<open>Dates\<close>

text \<open>
  \<open>shifted_date h t\<close> writes out the offset-shifted policy of the specification for an
  instant \<open>t\<close>: add one hour, take the calendar date of the result, print the year, the
  month and the day, the last two with two digits.
\<close>

definition shifted_date :: "host \<Rightarrow> int \<Rightarrow> string" where
  "shifted_date h t =
     (case civil_from_days ((t + 3600000) div msPerDay) of
        (y, m, d) \<Rightarrow>
          Number_toString h y @ ''-'' @ padStart 2 (CHR ''0'') (Number_toString h m)
          @ ''-'' @ padStart 2 (CHR ''0'') (Number_toString h d))"

text \<open>
  \<open>date_text h y m d\<close> is the text the slash form emits: the year as it prints, then the
  month and the day with two digits. \<open>valid_day_month_year\<close> is its validation of the three
  parsed numbers, a \<open>NaN\<close> failing it.
\<close>

definition date_text :: "host \<Rightarrow> int \<Rightarrow> int \<Rightarrow> int \<Rightarrow> string" where
  "date_text h y m d =
     Number_toString h y @ ''-'' @ padStart 2 (CHR ''0'') (Number_toString h m)
     @ ''-'' @ padStart 2 (CHR ''0'') (Number_toString h d)"

definition valid_day_month_year :: "int option \<Rightarrow> int option \<Rightarrow> int option \<Rightarrow> bool" where
  "valid_day_month_year dayNum monthNum yearNum =
     (case (dayNum, monthNum, yearNum) of
        (Some d, Some m, Some y) \<Rightarrow> 1 \<le> d \<and> d \<le> 31 \<and> 1 \<le> m \<and> m \<le> 12 \<and> 1900 \<le> y
      | _ \<Rightarrow> False)"

text \<open>
  \<open>slash_valid t\<close>: the text has the day/month/year shape, three parts between slashes
  that parse to numbers in range.
\<close>

definition slash_valid :: "string \<Rightarrow> bool" where
  "slash_valid t =
     (case split (CHR ''/'') t of
        [day, month, year] \<Rightarrow>
          valid_day_month_year (parseInt day) (parseInt month) (parseInt year)
      | _ \<Rightarrow> False)"

subsection \<open>Failures of the lookup\<close>

text \<open>
  The failure conditions of the lookup that the specification lists, and what it means
  for a settled response to exhibit one of them. \<open>parsed h r\<close> is what \<open>JSON.parse\<close> makes
  of the body of \<open>r\<close>.
\<close>

datatype failure =
    NonOkStatus | EmptyBody | MalformedJSON | NonArrayBody | EmptyArray
  | RowTooShort | RowNotArray

definition parsed :: "host \<Rightarrow> fetch_result \<Rightarrow> json option" where
  "parsed h r =
     (case r of
        Response st (Some text) \<Rightarrow> JSON_parse h text
      | _ \<Rightarrow> None)"

fun exhibits :: "host \<Rightarrow> failure \<Rightarrow> fetch_result \<Rightarrow> bool" where
  "exhibits h NonOkStatus r = (case r of Response st bd \<Rightarrow> \<not> response_ok st | _ \<Rightarrow> False)"
| "exhibits h EmptyBody r = (case r of Response st bd \<Rightarrow> bd = Some [] | _ \<Rightarrow> False)"
| "exhibits h MalformedJSON r =
     (case r of Response st (Some text) \<Rightarrow> JSON_parse h text = None | _ \<Rightarrow> False)"
| "exhibits h NonArrayBody r =
     (case parsed h r of Some (JArr rows) \<Rightarrow> False | Some data \<Rightarrow> True | None \<Rightarrow> False)"
| "exhibits h EmptyArray r = (parsed h r = Some (JArr []))"
| "exhibits h RowTooShort r =
     (case parsed h r of Some (JArr (JArr cells # rows)) \<Rightarrow> length cells < 14 | _ \<Rightarrow> False)"
| "exhibits h RowNotArray r =
     (case parsed h r of
        Some (JArr (JArr cells # rows)) \<Rightarrow> False
      | Some (JArr (row # rows)) \<Rightarrow> True
      | _ \<Rightarrow> False)"

subsection \<open>Errors and actions of the probe\<close>




section \<open>Concrete inputs\<close>

text \<open>
  The inputs at which the theorems are instantiated. \<open>stub_host r j\<close> answers every
  request with \<open>r\<close> and parses every body to \<open>j\<close>; its other functions are the simplest
  ones. \<open>example_row\<close> is the row of the lookup example: 14 fields, matricule, name,
  national id and gender at indices 0, 2, 3 and 4, the date at index 13.
\<close>

definition stub_host :: "fetch_result \<Rightarrow> json option \<Rightarrow> host" where
  "stub_host r j =
     \<lparr>fetch = (\<lambda>url. r), json_parser = (\<lambda>text. j), encodeURIComponent = (\<lambda>s. s),
      toUpperCase = (\<lambda>s. s), Number_toString_host = (\<lambda>q. ''Infinity''),
      Date_parse_host = (\<lambda>s. None)\<rparr>"

definition example_row :: "json list" where
  "example_row =
     [JStr ''M123'', JStr ''x'', JStr ''Jane Doe'', JStr ''CIN99'', JStr ''H'', JNull, JNull,
      JNull, JNull, JNull, JNull, JNull, JNull, JStr ''15/06/2020'']"

definition example_body :: string where
  \<open>example_body =
     ''[["M123","x","Jane Doe","CIN99","H",null,null,null,null,null,null,null,null,"15/06/2020"]]''\<close>

definition example_host :: host where
  "example_host = stub_host (Response 200 (Some example_body)) (Some (JArr [JArr example_row]))"

text \<open>A host whose one response exhibits the given failure condition.\<close>

fun failing_host :: "failure \<Rightarrow> host" where
  "failing_host NonOkStatus =
     stub_host (Response 404 (Some example_body)) (Some (JArr [JArr example_row]))"
| "failing_host EmptyBody = stub_host (Response 200 (Some [])) None"
| "failing_host MalformedJSON = stub_host (Response 200 (Some ''<html>'')) None"
| "failing_host NonArrayBody = stub_host (Response 200 (Some ''{}'')) (Some (JObj []))"
| "failing_host EmptyArray = stub_host (Response 200 (Some ''[]'')) (Some (JArr []))"
| "failing_host RowTooShort =
     stub_host (Response 200 (Some ''[[1,2,3]]'')) (Some (JArr [JArr [JNum 1, JNum 2, JNum 3]]))"
| "failing_host RowNotArray = stub_host (Response 200 (Some ''[7]'')) (Some (JArr [JNum 7]))"

text \<open>An environment of the probe in which every attempt ends the same way.\<close>

definition always :: "bool \<Rightarrow> bool \<Rightarrow> race \<Rightarrow> nat \<Rightarrow> attempt" where
  "always online session r = (\<lambda>retryCount. \<lparr>onLine = online, currentUser = session, remote = r\<rparr>)"




section \<open>Auxiliary facts\<close>

declare testFirebaseConnection.simps [simp del]

subsection \<open>White space, digits and the two tests\<close>

lemma trimEnd_Nil: "trimEnd [] = []"
  by (simp add: trimEnd_def)

lemma trim_blank: "list_all isWhiteSpace s \<Longrightarrow> trim s = []"
proof -
  assume "list_all isWhiteSpace s"
  then have d: "dropWhile isWhiteSpace s = []"
    by (simp add: dropWhile_eq_Nil_conv list_all_iff)
  show ?thesis unfolding trim_def d by (simp add: trimEnd_def)
qed

lemma isDigit_not_ws: "isDigit c \<Longrightarrow> \<not> isWhiteSpace c"
  by (auto simp: isDigit_def isWhiteSpace_def)

lemma isDigit_not_T: "isDigit c \<Longrightarrow> c \<noteq> CHR ''T''"
  by (auto simp: isDigit_def)

lemma isDigit_not_slash: "isDigit c \<Longrightarrow> c \<noteq> CHR ''/''"
  by (auto simp: isDigit_def)

lemma trimEnd_append_keep:
  "\<not> isWhiteSpace c \<Longrightarrow> trimEnd (xs @ c # ys) = xs @ c # trimEnd ys"
  by (simp add: trimEnd_def dropWhile_append)


lemma trim_nonempty: "trim s \<noteq> [] \<Longrightarrow> s \<noteq> []"
  by (auto simp: trim_def trimEnd_def)

lemma date_prefix_split:
  "re_date_prefix s = Some rest \<Longrightarrow> s = take 10 s @ rest \<and> re_date_prefix (take 10 s) = Some []"
  by (elim re_date_prefix.elims) (auto split: if_splits)

lemma canonical_shape:
  assumes "test_canonical p"
  shows "length p = 10" and "CHR ''T'' \<notin> set p" and "CHR ''/'' \<notin> set p"
    and "p \<noteq> []" and "\<not> isWhiteSpace (hd p)" and "\<not> isWhiteSpace (last p)"
  using assms unfolding test_canonical_def
  by (elim re_date_prefix.elims;
      auto split: if_splits dest: isDigit_not_T isDigit_not_slash isDigit_not_ws
           simp: isWhiteSpace_def)+

lemma trim_keep:
  assumes "p \<noteq> []" "\<not> isWhiteSpace (hd p)" "\<not> isWhiteSpace c"
  shows "trim (p @ c # rest) = p @ c # trimEnd rest"
proof -
  from assms(1,2) have "dropWhile isWhiteSpace (p @ c # rest) = p @ c # rest"
    by (cases p) simp_all
  then show ?thesis by (simp add: trim_def trimEnd_append_keep [OF assms(3)])
qed

lemma trim_canonical:
  assumes "test_canonical s" shows "trim s = s"
proof -
  note sh = canonical_shape [OF assms]
  from sh(4) obtain xs c where s: "s = xs @ [c]" by (metis rev_exhaust)
  with sh(6) have c: "\<not> isWhiteSpace c" by simp
  have "dropWhile isWhiteSpace s = s" using sh(4,5) by (cases s) simp_all
  then show ?thesis using trimEnd_append_keep [OF c, of xs "[]"] by (simp add: trim_def s trimEnd_Nil)
qed

lemma datetime_shape:
  assumes "test_datetime s"
  obtains p rest where "s = p @ CHR ''T'' # rest" "test_canonical p"
proof -
  from assms obtain rest where r: "re_date_prefix s = Some (CHR ''T'' # rest)"
    by (auto simp: test_datetime_def split: option.splits list.splits)
  from date_prefix_split [OF r] show ?thesis
    using that [of "take 10 s" rest] by (simp add: test_canonical_def)
qed

lemma re_date_prefix_append:
  assumes "test_canonical p" shows "re_date_prefix (p @ rest) = Some rest"
  using assms unfolding test_canonical_def
  by (elim re_date_prefix.elims) (auto split: if_splits)

lemma datetime_trim:
  assumes "test_datetime s"
  obtains p rest where "test_canonical p" "s = p @ CHR ''T'' # rest"
    "trim s = p @ CHR ''T'' # trimEnd rest"
proof -
  from assms obtain p rest where s: "s = p @ CHR ''T'' # rest" and p: "test_canonical p"
    by (rule datetime_shape)
  have T: "\<not> isWhiteSpace (CHR ''T'')" by (simp add: isWhiteSpace_def)
  have "trim s = p @ CHR ''T'' # trimEnd rest"
    unfolding s by (rule trim_keep [OF canonical_shape(4,5) [OF p] T])
  with p s show ?thesis by (rule that)
qed

lemma datetime_gate:
  assumes "test_canonical p"
  shows "test_datetime (p @ CHR ''T'' # rest)" and "\<not> test_canonical (p @ CHR ''T'' # rest)"
  using re_date_prefix_append [OF assms, of "CHR ''T'' # rest"]
  by (simp_all add: test_datetime_def test_canonical_def)

subsection \<open>Splitting\<close>

lemma split_no_sep: "sep \<notin> set s \<Longrightarrow> split sep s = [s]"
  by (induction s) auto

lemma split_first: "sep \<notin> set p \<Longrightarrow> split sep (p @ sep # rest) = p # split sep rest"
  by (induction p) auto

lemma split_not_Nil: "split sep s \<noteq> []"
  by (induction s) (auto split: list.splits)

subsection \<open>Decimal digits\<close>

lemma isDigit_digitChar: "isDigit (digitChar n)"
proof -
  have "n mod 10 = 0 \<or> n mod 10 = 1 \<or> n mod 10 = 2 \<or> n mod 10 = 3 \<or> n mod 10 = 4
      \<or> n mod 10 = 5 \<or> n mod 10 = 6 \<or> n mod 10 = 7 \<or> n mod 10 = 8 \<or> n mod 10 = 9"
    by presburger
  then show ?thesis unfolding digitChar_def by (auto simp: isDigit_def)
qed

lemma decimal_1: "n < 10 \<Longrightarrow> decimal n = [digitChar n]"
  by simp

lemma decimal_2: "10 \<le> n \<Longrightarrow> n < 100 \<Longrightarrow> decimal n = [digitChar (n div 10), digitChar n]"
  by (subst decimal.simps) (simp add: decimal_1)

lemma decimal_3: "100 \<le> n \<Longrightarrow> n < 1000 \<Longrightarrow> decimal n = [digitChar (n div 100), digitChar (n div 10), digitChar n]"
  by (subst decimal.simps) (simp add: decimal_2 div_mult2_eq[symmetric] del: decimal.simps)

lemma decimal_4: "1000 \<le> n \<Longrightarrow> n < 10000 \<Longrightarrow>
   decimal n = [digitChar (n div 1000), digitChar (n div 100), digitChar (n div 10), digitChar n]"
  by (subst decimal.simps) (simp add: decimal_3 div_mult2_eq[symmetric] del: decimal.simps)

lemma pad2_digits:
  assumes "0 \<le> n" "n \<le> 99"
  shows "\<exists>a b. padStart 2 (CHR ''0'') (Number_toString h n) = [a, b] \<and> isDigit a \<and> isDigit b"
proof (cases "n < 10")
  case True
  with assms have "Number_toString h n = [digitChar (nat n)]"
    by (simp add: Number_toString_def decimal_1 del: decimal.simps)
  moreover have "isDigit (CHR ''0'')" by (simp add: isDigit_def)
  ultimately show ?thesis by (simp add: padStart_def isDigit_digitChar)
next
  case False
  with assms have "Number_toString h n = [digitChar (nat n div 10), digitChar (nat n)]"
    by (simp add: Number_toString_def decimal_2 del: decimal.simps)
  then show ?thesis by (simp add: padStart_def isDigit_digitChar)
qed

lemma year4_digits:
  assumes "1000 \<le> y" "y \<le> 9999"
  shows "\<exists>a b c d. Number_toString h y = [a, b, c, d] \<and> isDigit a \<and> isDigit b \<and> isDigit c \<and> isDigit d"
proof -
  from assms have "Number_toString h y = decimal (nat y)"
    by (simp add: Number_toString_def del: decimal.simps)
  also from assms have "\<dots> = [digitChar (nat y div 1000), digitChar (nat y div 100), digitChar (nat y div 10), digitChar (nat y)]"
    by (intro decimal_4) auto
  finally show ?thesis by (simp add: isDigit_digitChar)
qed

lemma date_text_canonical:
  assumes "1000 \<le> y" "y \<le> 9999" "0 \<le> m" "m \<le> 99" "0 \<le> d" "d \<le> 99"
  shows "test_canonical (date_text h y m d)"
proof -
  from year4_digits [OF assms(1,2)] obtain a b c e where
    y: "Number_toString h y = [a, b, c, e]" "isDigit a" "isDigit b" "isDigit c" "isDigit e" by blast
  from pad2_digits [OF assms(3,4)] obtain m1 m2 where
    m: "padStart 2 (CHR ''0'') (Number_toString h m) = [m1, m2]" "isDigit m1" "isDigit m2" by blast
  from pad2_digits [OF assms(5,6)] obtain d1 d2 where
    d: "padStart 2 (CHR ''0'') (Number_toString h d) = [d1, d2]" "isDigit d1" "isDigit d2" by blast
  show ?thesis by (simp add: date_text_def y m d test_canonical_def)
qed

subsection \<open>The time values of the date strings that are read here\<close>

lemma digitVal_le: "isDigit c \<Longrightarrow> digitVal c \<le> 9"
  by (auto simp: isDigit_def digitVal_def)

lemma days_from_civil_bounds:
  assumes "0 \<le> y" "y \<le> 9999" "1 \<le> m" "m \<le> 12" "1 \<le> d" "d \<le> 31"
  shows "- 1000000 \<le> days_from_civil y m d" and "days_from_civil y m d \<le> 3000000"
proof -
  define y' where "y' = (if m \<le> 2 then y - 1 else y)"
  define era where "era = y' div 400"
  define yoe where "yoe = y' - era * 400"
  define mp where "mp = (if m > 2 then m - 3 else m + 9)"
  define doy where "doy = (153 * mp + 2) div 5 + d - 1"
  have y': "- 1 \<le> y'" "y' \<le> 9999" using assms by (auto simp: y'_def)
  have era: "- 1 \<le> era" "era \<le> 24" using y' unfolding era_def by linarith+
  have yoe: "0 \<le> yoe" "yoe \<le> 399" unfolding yoe_def era_def by (simp_all add: minus_div_mult_eq_mod [symmetric] algebra_simps) 
  have mp: "0 \<le> mp" "mp \<le> 11" using assms by (auto simp: mp_def)
  have doy: "0 \<le> doy" "doy \<le> 400" using mp assms unfolding doy_def by linarith+
  have q: "0 \<le> yoe div 4" "yoe div 4 \<le> 100" "0 \<le> yoe div 100" "yoe div 100 \<le> 4"
    using yoe by linarith+
  have eq: "days_from_civil y m d = era * 146097 + (yoe * 365 + yoe div 4 - yoe div 100 + doy) - 719468"
    by (simp add: days_from_civil_def Let_def y'_def era_def yoe_def mp_def doy_def)
  show "- 1000000 \<le> days_from_civil y m d" unfolding eq using era yoe doy q by linarith
  show "days_from_civil y m d \<le> 3000000" unfolding eq using era yoe doy q
    by linarith
qed

lemma iso_year_bounds:
  assumes "re_date_prefix s = Some rest"
  shows "0 \<le> digitsValue (take 4 s)" and "digitsValue (take 4 s) \<le> 9999"
  using assms
  by (elim re_date_prefix.elims; auto split: if_splits simp: digitsValue_def dest!: digitVal_le)+

lemma DaysInMonth_le: "DaysInMonth y m \<le> 31"
  by (simp add: DaysInMonth_def)

lemma iso_millis_bound: "iso_millis s = (ms, r) \<Longrightarrow> ms \<le> 999"
  by (elim iso_millis.elims) (auto split: if_splits dest!: digitVal_le)

lemma iso_seconds_bound: "iso_seconds s = (ss, ms, r) \<Longrightarrow> ms \<le> 999"
  by (elim iso_seconds.elims)
     (auto split: if_splits option.splits dest: iso_millis_bound iso_millis_bound [OF sym])

lemma iso_time_bound: "iso_time s = Some (hh, mi, ss, ms, r) \<Longrightarrow> ms \<le> 999"
  by (elim iso_time.elims)
     (auto split: if_splits option.splits dest: iso_seconds_bound iso_seconds_bound [OF sym])

lemma iso_offset_bound: "iso_offset s = Some off \<Longrightarrow> - 1439 \<le> off \<and> off \<le> 1439"
  by (elim iso_offset.elims) (auto split: if_splits option.splits)

lemma Date_parse_iso_bound:
  assumes "Date_parse_iso s = Some t"
  shows "\<bar>t\<bar> \<le> 300000000000000"
proof -
  from assms obtain rest where r: "re_date_prefix s = Some rest"
    by (auto simp: Date_parse_iso_def split: option.splits)
  define y where "y = digitsValue (take 4 s)"
  define m where "m = digitsValue (take 2 (drop 5 s))"
  define d where "d = digitsValue (take 2 (drop 8 s))"
  note yb = iso_year_bounds [OF r, folded y_def]
  from assms r have md: "1 \<le> m" "m \<le> 12" "1 \<le> d" "d \<le> DaysInMonth y m"
    by (auto simp: Date_parse_iso_def Let_def y_def m_def d_def split: if_splits)
  with DaysInMonth_le [of y m] have d31: "d \<le> 31" by linarith
  note db = days_from_civil_bounds [OF yb md(1,2,3) d31]
  from assms r md consider
      "t = days_from_civil y m d * msPerDay"
    | hh mi ss ms zone off where "iso_time (tl rest) = Some (hh, mi, ss, ms, zone)"
        "iso_offset zone = Some off" "hh \<le> 23" "mi \<le> 59" "ss \<le> 59"
        "t = days_from_civil y m d * msPerDay + int hh * 3600000 + int mi * 60000
             + int ss * 1000 + int ms - off * 60000"
    by (auto simp: Date_parse_iso_def Let_def y_def m_def d_def
             split: if_splits list.splits option.splits)
  then show ?thesis
  proof cases
    case 1
    show ?thesis unfolding 1 msPerDay_def using db by linarith
  next
    case 2
    from iso_time_bound [OF 2(1)] have ms: "ms \<le> 999" .
    show ?thesis unfolding 2(6) msPerDay_def
      using db iso_offset_bound [OF 2(2)] ms 2(3,4,5) by linarith
  qed
qed

subsection \<open>Unfolding the definitions on concrete inputs\<close>

lemmas pfd_eval = parseFrenchDate_trunc_def parseFrenchDate_offset_def parseFrenchDate_slash_def
  trim_def trimEnd_def isWhiteSpace_def test_canonical_def test_datetime_def isDigit_def
  slash_form_def parseInt_def digitsValue_def digitVal_def Number_toString_def padStart_def
  digitChar_def


section \<open>Properties of the Date Normalizer\<close>

subsection \<open>The branches\<close>

lemma parseFrenchDate_trunc_datetime:
  assumes "test_canonical p"
  shows "parseFrenchDate_trunc h (p @ CHR ''T'' # rest) = Some p"
proof -
  note sh = canonical_shape [OF assms]
  have T: "\<not> isWhiteSpace (CHR ''T'')" by (simp add: isWhiteSpace_def)
  have t: "trim (p @ CHR ''T'' # rest) = p @ CHR ''T'' # trimEnd rest"
    by (rule trim_keep [OF sh(4,5) T])
  have pre: "re_date_prefix (p @ CHR ''T'' # trimEnd rest) = Some (CHR ''T'' # trimEnd rest)"
    by (rule re_date_prefix_append [OF assms])
  have sp: "split (CHR ''T'') (p @ CHR ''T'' # trimEnd rest) = p # split (CHR ''T'') (trimEnd rest)"
    by (rule split_first [OF sh(2)])
  show ?thesis
    by (simp add: parseFrenchDate_trunc_def t pre sp test_canonical_def test_datetime_def sh(4))
qed

lemma canonical_trunc:
  assumes "test_canonical s" shows "parseFrenchDate_trunc h s = Some s"
  using assms canonical_shape(4) [OF assms]
  by (simp add: parseFrenchDate_trunc_def trim_canonical)

lemma canonical_offset:
  assumes "test_canonical s" shows "parseFrenchDate_offset h s = Some s"
  using assms canonical_shape(4) [OF assms]
  by (simp add: parseFrenchDate_offset_def trim_canonical)

lemma canonical_slash:
  assumes "test_canonical s" shows "parseFrenchDate_slash h s = None"
  using split_no_sep [OF canonical_shape(3) [OF assms]]
  by (simp add: parseFrenchDate_slash_def)

lemma trunc_datetime:
  assumes "test_datetime s"
  shows "parseFrenchDate_trunc h s = Some (take 10 s)"
proof -
  from assms obtain p rest where p: "test_canonical p" and s: "s = p @ CHR ''T'' # rest"
    by (rule datetime_shape)
  have "take 10 s = p" using canonical_shape(1) [OF p] by (simp add: s)
  then show ?thesis using parseFrenchDate_trunc_datetime [OF p, of h rest] by (simp add: s)
qed

lemma offset_datetime:
  assumes "test_datetime s" and "Date_new h (trim s) = Some t"
    and "\<bar>t + 3600000\<bar> \<le> 8640000000000000"
  shows "parseFrenchDate_offset h s = Some (shifted_date h t)"
proof -
  from assms(1) obtain p rest where p: "test_canonical p" and s: "s = p @ CHR ''T'' # rest"
    and t: "trim s = p @ CHR ''T'' # trimEnd rest"
    by (rule datetime_trim)
  note g = datetime_gate [OF p, of "trimEnd rest"]
  have ne: "s \<noteq> []" by (simp add: s)
  have ne2: "trim s \<noteq> []" unfolding t by simp
  have clip: "Date_of (Some (t + 3600000)) = Some (t + 3600000)"
    using assms(3) by (simp add: Date_of_def TimeClip_def)
  show ?thesis
    using ne ne2 g assms(2) clip
    by (simp add: parseFrenchDate_offset_def t [symmetric] shifted_date_def String_number_def
          getUTCFullYear_def getUTCMonth_def getUTCDate_def split_beta Let_def)
qed

lemma offset_datetime_iso:
  assumes "test_datetime s" and "Date_parse_iso (trim s) = Some t"
  shows "parseFrenchDate_offset h s = Some (shifted_date h t)"
proof -
  note b = Date_parse_iso_bound [OF assms(2)]
  then have "Date_new h (trim s) = Some t"
    by (simp add: Date_new_def Date_parse_def assms(2) TimeClip_def)
  moreover from b have "\<bar>t + 3600000\<bar> \<le> 8640000000000000" by linarith
  ultimately show ?thesis by (rule offset_datetime [OF assms(1)])
qed

lemma offset_datetime_unreadable:
  assumes "test_datetime s" and "Date_new h (trim s) = None"
  shows "parseFrenchDate_offset h s = Some ''NaN-NaN-NaN''"
proof -
  from assms(1) obtain p rest where p: "test_canonical p" and s: "s = p @ CHR ''T'' # rest"
    and t: "trim s = p @ CHR ''T'' # trimEnd rest"
    by (rule datetime_trim)
  note g = datetime_gate [OF p, of "trimEnd rest"]
  have ne: "s \<noteq> []" by (simp add: s)
  have ne2: "trim s \<noteq> []" unfolding t by simp
  have pad: "padStart 2 (CHR ''0'') ''NaN'' = ''NaN''" by (simp add: padStart_def)
  show ?thesis
    using ne ne2 g assms(2) pad
    by (simp add: parseFrenchDate_offset_def t [symmetric] String_number_def Date_of_def Let_def)
qed

lemma slash_form_None:
  "length (split (CHR ''/'') t) \<noteq> 3 \<Longrightarrow> slash_form h t = None"
  by (auto simp: slash_form_def split: list.splits)

lemma slash_form_three:
  assumes "split (CHR ''/'') t = [ds, ms, ys]"
  shows "slash_form h t =
           (if valid_day_month_year (parseInt ds) (parseInt ms) (parseInt ys)
            then Some (date_text h (the (parseInt ys)) (the (parseInt ms)) (the (parseInt ds)))
            else None)"
  by (simp add: slash_form_def assms valid_day_month_year_def date_text_def split: option.splits)

lemma slash_form_invalid:
  "\<not> slash_valid t \<Longrightarrow> slash_form h t = None"
  by (auto simp: slash_form_def slash_valid_def valid_day_month_year_def
           split: list.splits option.splits)

lemma slash_gate:
  assumes "split (CHR ''/'') t = [ds, ms, ys]"
  shows "t \<noteq> []" and "\<not> test_canonical t"
proof -
  show "t \<noteq> []" using assms by auto
  show "\<not> test_canonical t"
  proof
    assume "test_canonical t"
    from split_no_sep [OF canonical_shape(3) [OF this]] assms show False by simp
  qed
qed

lemma slash_branch:
  assumes "split (CHR ''/'') (trim s) = [ds, ms, ys]" and "\<not> test_datetime (trim s)"
  shows "parseFrenchDate_trunc h s = slash_form h (trim s)"
    and "parseFrenchDate_offset h s = slash_form h (trim s)"
  using slash_gate [OF assms(1)] trim_nonempty [of s] assms(2)
  by (simp_all add: parseFrenchDate_trunc_def parseFrenchDate_offset_def)

subsection \<open>Canonical input\<close>

text \<open>
  Claim C5, as amended. An input that already has the canonical form \<open>YYYY-MM-DD\<close> is
  returned unchanged by the truncation variant and by the offset-shifted variant, so
  \<open>2025-11-30\<close> gives \<open>2025-11-30\<close>. The variant of part 000 reads day/month/year
  only: it finds no slash in such an input and returns \<open>null\<close>.
\<close>

theorem canonical_input_per_variant:
  assumes "test_canonical s"
  shows "parseFrenchDate_trunc h s = Some s \<and> parseFrenchDate_offset h s = Some s
       \<and> parseFrenchDate_slash h s = None"
  using canonical_trunc [OF assms] canonical_offset [OF assms] canonical_slash [OF assms]
  by simp

theorem canonical_input_per_variant_witness:
  "test_canonical ''2025-11-30''
   \<and> parseFrenchDate_trunc example_host ''2025-11-30'' = Some ''2025-11-30''
   \<and> parseFrenchDate_offset example_host ''2025-11-30'' = Some ''2025-11-30''
   \<and> parseFrenchDate_slash example_host ''2025-11-30'' = None"
proof -
  have 1: "test_canonical ''2025-11-30''" by (simp add: test_canonical_def isDigit_def)
  from canonical_input_per_variant [OF 1] 1 show ?thesis by simp
qed

text \<open>
  The claim as stated, for each variant, fails on part 000 at \<open>2025-11-30\<close>.
\<close>

theorem part000_rejects_canonical_input:
  "parseFrenchDate_slash example_host ''2025-11-30'' = None"
  by (simp add: parseFrenchDate_slash_def)

text \<open>
  Claim C9. On an input in canonical form the normalizer is idempotent: it returns a
  result, and applying it to that result gives the same result. A \<open>null\<close> would be
  answered by \<open>null\<close>, which is what \<open>Option.bind\<close> does.
\<close>

theorem canonical_idempotent:
  assumes "test_canonical x"
  shows "Option.bind (parseFrenchDate_trunc h x) (parseFrenchDate_trunc h) = parseFrenchDate_trunc h x
       \<and> parseFrenchDate_trunc h x \<noteq> None
       \<and> Option.bind (parseFrenchDate_offset h x) (parseFrenchDate_offset h) = parseFrenchDate_offset h x
       \<and> parseFrenchDate_offset h x \<noteq> None"
  by (simp add: canonical_trunc [OF assms] canonical_offset [OF assms])

theorem canonical_idempotent_witness:
  "test_canonical ''2025-11-30''
   \<and> Option.bind (parseFrenchDate_trunc example_host ''2025-11-30'') (parseFrenchDate_trunc example_host)
       = parseFrenchDate_trunc example_host ''2025-11-30''
   \<and> Option.bind (parseFrenchDate_offset example_host ''2025-11-30'') (parseFrenchDate_offset example_host)
       = parseFrenchDate_offset example_host ''2025-11-30''
   \<and> parseFrenchDate_trunc example_host ''2025-11-30'' = Some ''2025-11-30''"
proof -
  have 1: "test_canonical ''2025-11-30''" by (simp add: test_canonical_def isDigit_def)
  from canonical_idempotent [OF 1] canonical_trunc [OF 1] 1 show ?thesis by simp
qed

subsection \<open>Unrecognised input\<close>

text \<open>
  Claim C8. An input that is empty or white space only gives \<open>null\<close>, and so does an
  input whose trimmed text has none of the three shapes: not the canonical form, not the
  date-time prefix, and not three parts between slashes that parse to a day, a month
  and a year in range.
\<close>

theorem unrecognised_input_null:
  assumes "list_all isWhiteSpace s
         \<or> (\<not> test_canonical (trim s) \<and> \<not> test_datetime (trim s) \<and> \<not> slash_valid (trim s))"
  shows "parseFrenchDate_trunc h s = None \<and> parseFrenchDate_offset h s = None"
  using assms
proof
  assume "list_all isWhiteSpace s"
  from trim_blank [OF this] show ?thesis
    by (simp add: parseFrenchDate_trunc_def parseFrenchDate_offset_def)
next
  assume "\<not> test_canonical (trim s) \<and> \<not> test_datetime (trim s) \<and> \<not> slash_valid (trim s)"
  then show ?thesis
    by (simp add: parseFrenchDate_trunc_def parseFrenchDate_offset_def slash_form_invalid Let_def)
qed

theorem unrecognised_input_null_witness:
  "list_all isWhiteSpace [CHR 0x20, CHR 0x09]
   \<and> parseFrenchDate_trunc example_host [CHR 0x20, CHR 0x09] = None
   \<and> parseFrenchDate_offset example_host [CHR 0x20, CHR 0x09] = None
   \<and> parseFrenchDate_trunc example_host [] = None
   \<and> test_canonical (trim ''30-11-2025'') = False
   \<and> test_datetime (trim ''30-11-2025'') = False
   \<and> slash_valid (trim ''30-11-2025'') = False
   \<and> parseFrenchDate_trunc example_host ''30-11-2025'' = None
   \<and> parseFrenchDate_offset example_host ''30-11-2025'' = None
   \<and> test_canonical (trim ''soon/ish/2025'') = False
   \<and> test_datetime (trim ''soon/ish/2025'') = False
   \<and> slash_valid (trim ''soon/ish/2025'') = False
   \<and> parseFrenchDate_trunc example_host ''soon/ish/2025'' = None
   \<and> parseFrenchDate_offset example_host ''soon/ish/2025'' = None"
proof -
  have 1: "list_all isWhiteSpace [CHR 0x20, CHR 0x09]" by (simp add: isWhiteSpace_def)
  have 0: "list_all isWhiteSpace []" by simp
  have a: "\<not> test_canonical (trim ''30-11-2025'')" "\<not> test_datetime (trim ''30-11-2025'')"
    "\<not> slash_valid (trim ''30-11-2025'')"
    by (simp_all add: slash_valid_def pfd_eval)
  have b: "\<not> test_canonical (trim ''soon/ish/2025'')" "\<not> test_datetime (trim ''soon/ish/2025'')"
    "\<not> slash_valid (trim ''soon/ish/2025'')"
    by (simp_all add: slash_valid_def valid_day_month_year_def pfd_eval)
  from unrecognised_input_null [of "[CHR 0x20, CHR 0x09]" example_host, OF disjI1, OF 1]
       unrecognised_input_null [of "[]" example_host, OF disjI1, OF 0]
       unrecognised_input_null [of "''30-11-2025''" example_host, OF disjI2] a
       unrecognised_input_null [of "''soon/ish/2025''" example_host, OF disjI2] b 1
  show ?thesis by simp
qed

subsection \<open>Date-time input\<close>

text \<open>
  On \<open>2025-11-30T23:00:00.000Z\<close> the offset-shifted variant returns \<open>2025-12-01\<close> and
  the truncation variant \<open>2025-11-30\<close>. On an input that starts with \<open>YYYY-MM-DDT\<close>, the
  truncation variant returns the ten code units before the \<open>T\<close>, and the offset-shifted
  variant, when the text is read as the instant \<open>t\<close>, returns the calendar date of \<open>t\<close>
  plus one hour: for a text with a zone, which is read the same way everywhere, and for a
  text that the host reads. One millisecond before 23:00 UTC the two variants still agree.
\<close>

lemma datetime_readable:
  "parseFrenchDate_offset h ''2025-11-30T23:00:00.000Z'' = Some ''2025-12-01''
   \<and> parseFrenchDate_trunc h ''2025-11-30T23:00:00.000Z'' = Some ''2025-11-30''
   \<and> (test_datetime s \<longrightarrow> parseFrenchDate_trunc h s = Some (take 10 s))
   \<and> (test_datetime s \<and> Date_parse_iso (trim s) = Some t
        \<longrightarrow> parseFrenchDate_offset h s = Some (shifted_date h t))
   \<and> (test_datetime s \<and> Date_new h (trim s) = Some t \<and> \<bar>t + 3600000\<bar> \<le> 8640000000000000
        \<longrightarrow> parseFrenchDate_offset h s = Some (shifted_date h t))"
proof -
  have "parseFrenchDate_offset h ''2025-11-30T23:00:00.000Z'' = Some ''2025-12-01''"
    by code_simp
  moreover have "parseFrenchDate_trunc h ''2025-11-30T23:00:00.000Z'' = Some ''2025-11-30''"
    by code_simp
  ultimately show ?thesis using trunc_datetime offset_datetime offset_datetime_iso by blast
qed

lemma datetime_readable_boundary:
  "test_datetime ''2025-11-30T22:59:59.999Z''
   \<and> Date_parse_iso (trim ''2025-11-30T22:59:59.999Z'') = Some 1764543599999
   \<and> Date_new example_host (trim ''2025-11-30T22:59:59.999Z'') = Some 1764543599999
   \<and> parseFrenchDate_trunc example_host ''2025-11-30T22:59:59.999Z'' = Some ''2025-11-30''
   \<and> parseFrenchDate_offset example_host ''2025-11-30T22:59:59.999Z''
       = Some (shifted_date example_host 1764543599999)
   \<and> shifted_date example_host 1764543599999 = ''2025-11-30''
   \<and> shifted_date example_host 1764543600000 = ''2025-12-01''"
proof -
  have 1: "test_datetime ''2025-11-30T22:59:59.999Z''" by code_simp
  have 2: "Date_new example_host (trim ''2025-11-30T22:59:59.999Z'') = Some 1764543599999"
    by code_simp
  have 3: "\<bar>1764543599999 + 3600000\<bar> \<le> (8640000000000000 :: int)" by simp
  have 4: "shifted_date example_host 1764543599999 = ''2025-11-30''" by code_simp
  have 5: "shifted_date example_host 1764543600000 = ''2025-12-01''" by code_simp
  have 6: "take 10 ''2025-11-30T22:59:59.999Z'' = ''2025-11-30''" by simp
  have 7: "Date_parse_iso (trim ''2025-11-30T22:59:59.999Z'') = Some 1764543599999"
    by code_simp
  from datetime_readable [of example_host "''2025-11-30T22:59:59.999Z''" 1764543599999]
       1 2 3 4 5 6 7
  show ?thesis by simp
qed

text \<open>
  Claim C4 says that on every input of the shape \<open>YYYY-MM-DDThh:mm:ss...\<close> each variant
  follows its policy: the truncation variant takes the date before the \<open>T\<close>, the
  offset-shifted variant reads an instant, adds one hour and takes the calendar date. The
  offset-shifted variant departs from it on a text of this shape that \<open>Date\<close> does not
  read, such as \<open>2025-11-30T25:00:00Z\<close> with its hour of 25: the truncation variant
  returns \<open>2025-11-30\<close>, and the offset-shifted variant returns the text \<open>NaN-NaN-NaN\<close>,
  which is neither a calendar date nor \<open>null\<close>. The source puts the branch in a \<open>try\<close>
  whose \<open>catch\<close> returns \<open>null\<close>, but \<open>new Date\<close> and the getters raise nothing on such a
  text, so the \<open>catch\<close> is never entered; the variant of part 000 tests
  \<open>isNaN(date.getTime())\<close> and returns \<open>null\<close>.
\<close>

theorem offset_unreadable_datetime:
  "(test_datetime s \<and> Date_new h (trim s) = None
      \<longrightarrow> parseFrenchDate_offset h s = Some ''NaN-NaN-NaN''
          \<and> parseFrenchDate_trunc h s = Some (take 10 s))
   \<and> test_datetime ''2025-11-30T25:00:00Z''
   \<and> parseFrenchDate_offset example_host ''2025-11-30T25:00:00Z'' = Some ''NaN-NaN-NaN''
   \<and> parseFrenchDate_trunc example_host ''2025-11-30T25:00:00Z'' = Some ''2025-11-30''
   \<and> \<not> test_canonical ''NaN-NaN-NaN''"
proof -
  have 1: "test_datetime ''2025-11-30T25:00:00Z''" by code_simp
  have 2: "parseFrenchDate_offset example_host ''2025-11-30T25:00:00Z'' = Some ''NaN-NaN-NaN''"
    by code_simp
  have 3: "parseFrenchDate_trunc example_host ''2025-11-30T25:00:00Z'' = Some ''2025-11-30''"
    by code_simp
  have 4: "\<not> test_canonical ''NaN-NaN-NaN''" by code_simp
  from 1 2 3 4 trunc_datetime [of s h] offset_datetime_unreadable [of s h]
  show ?thesis by blast
qed

theorem offset_unreadable_datetime_witness:
  "test_datetime ''2025-13-01T10:00:00Z''
   \<and> Date_new example_host (trim ''2025-13-01T10:00:00Z'') = None
   \<and> parseFrenchDate_offset example_host ''2025-13-01T10:00:00Z'' = Some ''NaN-NaN-NaN''
   \<and> parseFrenchDate_trunc example_host ''2025-13-01T10:00:00Z'' = Some ''2025-13-01''"
proof -
  have 1: "test_datetime ''2025-13-01T10:00:00Z''" by code_simp
  have 2: "Date_new example_host (trim ''2025-13-01T10:00:00Z'') = None" by code_simp
  have 3: "take 10 ''2025-13-01T10:00:00Z'' = ''2025-13-01''" by simp
  from offset_unreadable_datetime [of "''2025-13-01T10:00:00Z''" example_host] 1 2 3
  show ?thesis by simp
qed

subsection \<open>Slash input\<close>

text \<open>
  Claim C6. Take an input that the normalizer reads as day/month/year: its trimmed text
  has three parts between slashes, and it is no date-time input (a text that starts with
  \<open>YYYY-MM-DDT\<close> is answered by the rule before this one). If the parts parse to a day
  from 1 to 31, a month from 1 to 12 and a year from 1900 on, both variants return the
  year as it prints, then the month and the day padded to two digits: the canonical form
  for every year of four digits. If a part is no number or out of range, they return
  \<open>null\<close>. So \<open>30/11/2025\<close> gives \<open>2025-11-30\<close>, \<open>31/13/2025\<close> gives \<open>null\<close>, and
  \<open>31/11/2025\<close>, a day that does not exist, gives \<open>2025-11-31\<close>.
\<close>

theorem slash_input_policy:
  assumes "split (CHR ''/'') (trim s) = [ds, ms, ys]" and "\<not> test_datetime (trim s)"
  shows "(parseInt ds = Some d \<and> parseInt ms = Some m \<and> parseInt ys = Some y
          \<and> 1 \<le> d \<and> d \<le> 31 \<and> 1 \<le> m \<and> m \<le> 12 \<and> 1900 \<le> y
          \<longrightarrow> parseFrenchDate_trunc h s = Some (date_text h y m d)
              \<and> parseFrenchDate_offset h s = Some (date_text h y m d)
              \<and> (y \<le> 9999 \<longrightarrow> test_canonical (date_text h y m d)))
       \<and> (\<not> valid_day_month_year (parseInt ds) (parseInt ms) (parseInt ys)
          \<longrightarrow> parseFrenchDate_trunc h s = None \<and> parseFrenchDate_offset h s = None)
       \<and> parseFrenchDate_trunc h ''30/11/2025'' = Some ''2025-11-30''
       \<and> parseFrenchDate_offset h ''30/11/2025'' = Some ''2025-11-30''
       \<and> parseFrenchDate_trunc h ''31/13/2025'' = None
       \<and> parseFrenchDate_offset h ''31/13/2025'' = None
       \<and> parseFrenchDate_trunc h ''31/11/2025'' = Some ''2025-11-31''
       \<and> parseFrenchDate_offset h ''31/11/2025'' = Some ''2025-11-31''"
proof -
  note br = slash_branch [OF assms, of h] and sf = slash_form_three [OF assms(1), of h]
  have 1: "parseFrenchDate_trunc h s = Some (date_text h y m d)
           \<and> parseFrenchDate_offset h s = Some (date_text h y m d)
           \<and> (y \<le> 9999 \<longrightarrow> test_canonical (date_text h y m d))"
    if "parseInt ds = Some d \<and> parseInt ms = Some m \<and> parseInt ys = Some y
          \<and> 1 \<le> d \<and> d \<le> 31 \<and> 1 \<le> m \<and> m \<le> 12 \<and> 1900 \<le> y"
  proof -
    from that have "valid_day_month_year (parseInt ds) (parseInt ms) (parseInt ys)"
      by (simp add: valid_day_month_year_def)
    with that have "slash_form h (trim s) = Some (date_text h y m d)" by (simp add: sf)
    moreover have "test_canonical (date_text h y m d)" if "y \<le> 9999"
      using that \<open>parseInt ds = Some d \<and> _\<close> by (intro date_text_canonical) auto
    ultimately show ?thesis by (simp add: br)
  qed
  have 2: "parseFrenchDate_trunc h s = None \<and> parseFrenchDate_offset h s = None"
    if "\<not> valid_day_month_year (parseInt ds) (parseInt ms) (parseInt ys)"
    using that by (simp add: br sf)
  have 3: "parseFrenchDate_trunc h ''30/11/2025'' = Some ''2025-11-30''" by (simp add: pfd_eval)
  have 4: "parseFrenchDate_offset h ''30/11/2025'' = Some ''2025-11-30''" by (simp add: pfd_eval)
  have 5: "parseFrenchDate_trunc h ''31/13/2025'' = None" by (simp add: pfd_eval)
  have 6: "parseFrenchDate_offset h ''31/13/2025'' = None" by (simp add: pfd_eval)
  have 7: "parseFrenchDate_trunc h ''31/11/2025'' = Some ''2025-11-31''" by (simp add: pfd_eval)
  have 8: "parseFrenchDate_offset h ''31/11/2025'' = Some ''2025-11-31''" by (simp add: pfd_eval)
  from 1 2 3 4 5 6 7 8 show ?thesis by blast
qed

theorem slash_input_policy_witness:
  "split (CHR ''/'') (trim '' 5/6/2020 '') = [''5'', ''6'', ''2020'']
   \<and> test_datetime (trim '' 5/6/2020 '') = False
   \<and> parseInt ''5'' = Some 5 \<and> parseInt ''6'' = Some 6 \<and> parseInt ''2020'' = Some 2020
   \<and> parseFrenchDate_trunc example_host '' 5/6/2020 '' = Some ''2020-06-05''
   \<and> parseFrenchDate_offset example_host '' 5/6/2020 '' = Some ''2020-06-05''
   \<and> test_canonical ''2020-06-05''
   \<and> split (CHR ''/'') (trim ''31/13/2025'') = [''31'', ''13'', ''2025'']
   \<and> test_datetime (trim ''31/13/2025'') = False
   \<and> valid_day_month_year (parseInt ''31'') (parseInt ''13'') (parseInt ''2025'') = False
   \<and> parseFrenchDate_trunc example_host ''31/13/2025'' = None"
proof -
  have a1: "split (CHR ''/'') (trim '' 5/6/2020 '') = [''5'', ''6'', ''2020'']"
    by (simp add: pfd_eval)
  have a2: "\<not> test_datetime (trim '' 5/6/2020 '')" by (simp add: pfd_eval)
  have a3: "parseInt ''5'' = Some 5" "parseInt ''6'' = Some 6" "parseInt ''2020'' = Some 2020"
    by (simp_all add: pfd_eval)
  have a4: "date_text example_host 2020 6 5 = ''2020-06-05''"
    by (simp add: date_text_def pfd_eval)
  have b1: "split (CHR ''/'') (trim ''31/13/2025'') = [''31'', ''13'', ''2025'']"
    by (simp add: pfd_eval)
  have b2: "\<not> test_datetime (trim ''31/13/2025'')" by (simp add: pfd_eval)
  have b3: "\<not> valid_day_month_year (parseInt ''31'') (parseInt ''13'') (parseInt ''2025'')"
    by (simp add: valid_day_month_year_def pfd_eval)
  from slash_input_policy [OF a1 a2, of 5 6 2020 example_host]
       slash_input_policy [OF b1 b2, of 0 0 0 example_host] a1 a2 a3 a4 b1 b2 b3
  show ?thesis by simp
qed

text \<open>
  Two inputs at the edges of the rule. A text that starts with \<open>YYYY-MM-DDT\<close> is a
  date-time input whatever follows, slashes included. A year of five digits is printed
  with its five digits.
\<close>

lemma slash_rule_edges:
  "split (CHR ''/'') (trim ''0015-11-30T/6/2020'') = [''0015-11-30T'', ''6'', ''2020'']
   \<and> parseInt ''0015-11-30T'' = Some 15 \<and> parseInt ''6'' = Some 6 \<and> parseInt ''2020'' = Some 2020
   \<and> parseFrenchDate_trunc example_host ''0015-11-30T/6/2020'' = Some ''0015-11-30''
   \<and> parseFrenchDate_trunc example_host ''1/1/10000'' = Some ''10000-01-01''
   \<and> parseFrenchDate_offset example_host ''1/1/10000'' = Some ''10000-01-01''
   \<and> test_canonical ''10000-01-01'' = False"
proof -
  have "split (CHR ''/'') (trim ''0015-11-30T/6/2020'') = [''0015-11-30T'', ''6'', ''2020'']"
    by (simp add: pfd_eval)
  moreover have "parseInt ''0015-11-30T'' = Some 15" "parseInt ''6'' = Some 6"
    "parseInt ''2020'' = Some 2020"
    by (simp_all add: pfd_eval)
  moreover have "parseFrenchDate_trunc example_host ''0015-11-30T/6/2020'' = Some ''0015-11-30''"
    by (simp add: pfd_eval)
  moreover have "parseFrenchDate_trunc example_host ''1/1/10000'' = Some ''10000-01-01''"
    by (simp add: pfd_eval)
  moreover have "parseFrenchDate_offset example_host ''1/1/10000'' = Some ''10000-01-01''"
    by (simp add: pfd_eval)
  moreover have "test_canonical ''10000-01-01'' = False"
    by (simp add: pfd_eval)
  ultimately show ?thesis by (intro conjI)
qed

section \<open>Properties of the Worker Lookup Client\<close>

subsection \<open>Blank search terms\<close>

text \<open>
  Claim C10. For a search term that is empty or made of white space only, each lookup
  returns \<open>null\<close> at once: the list of requested URLs is empty.
\<close>

theorem blank_search_no_request:
  assumes "list_all isWhiteSpace searchValue"
  shows "searchWorkerInGoogleSheet h searchValue = (None, [])
       \<and> searchWorkerInGoogleSheet_sexe h searchValue = (None, [])
       \<and> searchWorkerInGoogleSheet_json base h searchValue = (None, [])"
  using trim_blank [OF assms]
  by (simp add: searchWorkerInGoogleSheet_def searchWorkerInGoogleSheet_sexe_def
                searchWorkerInGoogleSheet_json_def)

theorem blank_search_no_request_witness:
  "list_all isWhiteSpace '' ''
   \<and> searchWorkerInGoogleSheet example_host '' '' = (None, [])
   \<and> searchWorkerInGoogleSheet_sexe example_host '' '' = (None, [])
   \<and> searchWorkerInGoogleSheet_json GOOGLE_SCRIPT_URL_part000 example_host '' '' = (None, [])"
proof -
  have 1: "list_all isWhiteSpace '' ''" by (simp add: isWhiteSpace_def)
  from blank_search_no_request [OF 1] 1 show ?thesis by simp
qed

subsection \<open>The row of the example\<close>

lemma field_JStr:
  assumes "i < length row" "row ! i = JStr (c # cs)"
  shows "field h row i = Inr (c # cs)"
  using assms by (simp add: field_def cell_def or_empty_def)









subsection \<open>Failures\<close>

lemma failure_text:
  assumes "exhibits h f r"
  shows "catch_null (lookup_text h build r) = None"
proof (cases f)
  case NonOkStatus
  with assms show ?thesis
    by (simp add: lookup_text_def catch_null_def split: fetch_result.splits)
next
  case EmptyBody
  with assms show ?thesis
    by (simp add: lookup_text_def catch_null_def split: fetch_result.splits)
next
  case MalformedJSON
  with assms show ?thesis
    by (simp add: lookup_text_def catch_null_def split: fetch_result.splits option.splits)
next
  case NonArrayBody
  with assms show ?thesis
    by (auto simp: lookup_text_def catch_null_def parsed_def first_row_def
             split: fetch_result.splits option.splits json.splits)
next
  case EmptyArray
  with assms show ?thesis
    by (auto simp: lookup_text_def catch_null_def parsed_def first_row_def
             split: fetch_result.splits option.splits)
next
  case RowTooShort
  with assms show ?thesis
    by (auto simp: lookup_text_def catch_null_def parsed_def first_row_def
             split: fetch_result.splits option.splits json.splits list.splits)
next
  case RowNotArray
  with assms show ?thesis
    by (auto simp: lookup_text_def catch_null_def parsed_def first_row_def
             split: fetch_result.splits option.splits json.splits list.splits)
qed

lemma failure_json:
  assumes "exhibits h f r"
  shows "catch_null (lookup_json h build r) = None"
proof (cases f)
  case NonOkStatus
  with assms show ?thesis
    by (simp add: lookup_json_def catch_null_def split: fetch_result.splits)
next
  case EmptyBody
  with assms show ?thesis
    by (simp add: lookup_json_def catch_null_def JSON_parse_def split: fetch_result.splits)
next
  case MalformedJSON
  with assms show ?thesis
    by (simp add: lookup_json_def catch_null_def split: fetch_result.splits option.splits)
next
  case NonArrayBody
  with assms show ?thesis
    by (auto simp: lookup_json_def catch_null_def parsed_def first_row_def
             split: fetch_result.splits option.splits json.splits)
next
  case EmptyArray
  with assms show ?thesis
    by (auto simp: lookup_json_def catch_null_def parsed_def first_row_def
             split: fetch_result.splits option.splits)
next
  case RowTooShort
  with assms show ?thesis
    by (auto simp: lookup_json_def catch_null_def parsed_def first_row_def
             split: fetch_result.splits option.splits json.splits list.splits)
next
  case RowNotArray
  with assms show ?thesis
    by (auto simp: lookup_json_def catch_null_def parsed_def first_row_def
             split: fetch_result.splits option.splits json.splits list.splits)
qed

lemma raised_is_null:
  "lookup_text h build NetworkError = Inl TypeError"
  "lookup_json h build NetworkError = Inl TypeError"
  "catch_null (Inl e) = None"
  by (simp_all add: lookup_text_def lookup_json_def catch_null_def)

text \<open>
  Claim C3. Whichever failure condition the response exhibits (a status outside 200 to
  299, an empty body, a body that is no JSON, a body that is no array, an empty array, a
  first row shorter than 14 fields, a first row that is no array), the lookup returns
  \<open>null\<close>. It raises nothing: what the \<open>try\<close> block raises is \<open>null\<close> after the \<open>catch\<close>,
  as when \<open>fetch\<close> itself rejects.
\<close>

theorem lookup_failures_null:
  "(exhibits h f (fetch h (search_url GOOGLE_SCRIPT_URL h searchValue)) \<longrightarrow>
      fst (searchWorkerInGoogleSheet h searchValue) = None
      \<and> fst (searchWorkerInGoogleSheet_sexe h searchValue) = None)
   \<and> (exhibits h f (fetch h (search_url base h searchValue)) \<longrightarrow>
      fst (searchWorkerInGoogleSheet_json base h searchValue) = None)
   \<and> (fetch h (search_url GOOGLE_SCRIPT_URL h searchValue) = NetworkError \<longrightarrow>
      fst (searchWorkerInGoogleSheet h searchValue) = None
      \<and> fst (searchWorkerInGoogleSheet_sexe h searchValue) = None)"
  by (simp add: searchWorkerInGoogleSheet_def searchWorkerInGoogleSheet_sexe_def
        searchWorkerInGoogleSheet_json_def failure_text failure_json raised_is_null Let_def)

theorem lookup_failures_null_witness:
  "exhibits (failing_host NonOkStatus) NonOkStatus
     (fetch (failing_host NonOkStatus) (search_url GOOGLE_SCRIPT_URL (failing_host NonOkStatus) ''M123''))
   \<and> fst (searchWorkerInGoogleSheet (failing_host NonOkStatus) ''M123'') = None
   \<and> exhibits (failing_host EmptyBody) EmptyBody
     (fetch (failing_host EmptyBody) (search_url GOOGLE_SCRIPT_URL (failing_host EmptyBody) ''M123''))
   \<and> fst (searchWorkerInGoogleSheet (failing_host EmptyBody) ''M123'') = None
   \<and> exhibits (failing_host MalformedJSON) MalformedJSON
     (fetch (failing_host MalformedJSON) (search_url GOOGLE_SCRIPT_URL (failing_host MalformedJSON) ''M123''))
   \<and> fst (searchWorkerInGoogleSheet (failing_host MalformedJSON) ''M123'') = None
   \<and> exhibits (failing_host NonArrayBody) NonArrayBody
     (fetch (failing_host NonArrayBody) (search_url GOOGLE_SCRIPT_URL (failing_host NonArrayBody) ''M123''))
   \<and> fst (searchWorkerInGoogleSheet (failing_host NonArrayBody) ''M123'') = None
   \<and> exhibits (failing_host EmptyArray) EmptyArray
     (fetch (failing_host EmptyArray) (search_url GOOGLE_SCRIPT_URL (failing_host EmptyArray) ''M123''))
   \<and> fst (searchWorkerInGoogleSheet (failing_host EmptyArray) ''M123'') = None
   \<and> exhibits (failing_host RowTooShort) RowTooShort
     (fetch (failing_host RowTooShort) (search_url GOOGLE_SCRIPT_URL (failing_host RowTooShort) ''M123''))
   \<and> fst (searchWorkerInGoogleSheet (failing_host RowTooShort) ''M123'') = None
   \<and> exhibits (failing_host RowNotArray) RowNotArray
     (fetch (failing_host RowNotArray) (search_url GOOGLE_SCRIPT_URL (failing_host RowNotArray) ''M123''))
   \<and> fst (searchWorkerInGoogleSheet_sexe (failing_host RowNotArray) ''M123'') = None
   \<and> fst (searchWorkerInGoogleSheet_json GOOGLE_SCRIPT_URL_part000 (failing_host EmptyBody) ''M123'') = None"
proof -
  have e: "exhibits (failing_host f) f (fetch (failing_host f) (search_url b (failing_host f) ''M123''))"
    for f b
    by (cases f) (simp_all add: stub_host_def parsed_def JSON_parse_def response_ok_def)
  note t = lookup_failures_null [THEN conjunct1, THEN mp, OF e]
  note j = lookup_failures_null [THEN conjunct2, THEN conjunct1, THEN mp, OF e]
  from e t j show ?thesis by blast
qed

section \<open>Properties of the probe\<close>

subsection \<open>Without a session\<close>

text \<open>
  Claim C7. Whenever the probe runs while the runtime reports connectivity and no
  session exists, it reports success and does nothing else: the list of its actions is
  empty, so no remote document read is issued. This holds at every retry count.
\<close>

theorem probe_without_session:
  assumes "onLine (env retryCount)" and "\<not> currentUser (env retryCount)"
  shows "testFirebaseConnection env retryCount = (\<lparr>success = True, error = None\<rparr>, [])"
  using assms by (subst testFirebaseConnection.simps) simp

theorem probe_without_session_witness:
  "onLine (always True False Timeout 0) \<and> currentUser (always True False Timeout 0) = False
   \<and> testFirebaseConnection (always True False Timeout) 0 = (\<lparr>success = True, error = None\<rparr>, [])"
proof -
  have 1: "onLine (always True False Timeout 0)" by (simp add: always_def)
  have 2: "\<not> currentUser (always True False Timeout 0)" by (simp add: always_def)
  from probe_without_session [of "always True False Timeout" 0, OF 1 2] 1 2 show ?thesis by simp
qed

subsection \<open>Retries\<close>














end
